theory Spec2Isabelle
  imports Complex_Main "HOL-Library.Sublist" "HOL-Library.Multiset"
begin

text \<open>
  An embedding of the spreadsheet ingestion pipeline and of the chat fallback of the
  publishing dashboard servers: app1.js, the unnamed variant of it, app5.js and app7.js.
  The pure helpers are functions; the database is a record of four tables; a statement
  given to the database is an entry of a list of pending statements, and its callback
  runs when the statement is taken from the list. The values of \<open>Math.random()\<close>, the
  outcome of the call of the external model and the text of the local analysis are
  parameters.
\<close>

section \<open>Spreadsheet cells and JavaScript text primitives\<close>

text \<open>
  A row object produced by the spreadsheet parser maps a header text to a raw cell. A raw
  cell is a string, a number or a boolean; \<open>JUndefined\<close> and \<open>JNull\<close> are what a
  lookup yields when nothing is there. Numeric cells are modelled as integers and text as
  ASCII characters: case mapping beyond \<open>A\<close>-\<open>Z\<close> is not modelled.
\<close>

datatype cell = JUndefined | JNull | JBool bool | JNum int | JStr string

text \<open>Numbers that \<open>parseFloat\<close> and the arithmetic on costs produce.\<close>

datatype jsnum = NaN | PosInf | NegInf | Fin rat

definition toLowerChar :: "char \<Rightarrow> char" where
  "toLowerChar c =
     (case map_of (zip ''ABCDEFGHIJKLMNOPQRSTUVWXYZ'' ''abcdefghijklmnopqrstuvwxyz'') c of
        None \<Rightarrow> c | Some l \<Rightarrow> l)"

definition toLowerCase :: "string \<Rightarrow> string" where
  "toLowerCase s = map toLowerChar s"

definition isWhite :: "char \<Rightarrow> bool" where
  "isWhite c = (c \<in> set [CHR 0x09, CHR 0x0A, CHR 0x0B, CHR 0x0C, CHR 0x0D, CHR 0x20, CHR 0xA0])"

definition trimStart :: "string \<Rightarrow> string" where
  "trimStart s = dropWhile isWhite s"

definition trim :: "string \<Rightarrow> string" where
  "trim s = rev (dropWhile isWhite (rev (dropWhile isWhite s)))"

text \<open>\<open>s.includes(t)\<close>: \<open>t\<close> occurs in \<open>s\<close> as a contiguous substring.\<close>

fun js_includes :: "string \<Rightarrow> string \<Rightarrow> bool" where
  "js_includes [] t = (t = [])"
| "js_includes (c # s) t = (if prefix t (c # s) then True else js_includes s t)"

fun join :: "string \<Rightarrow> string list \<Rightarrow> string" where
  "join sep [] = []"
| "join sep [x] = x"
| "join sep (x # y # xs) = x @ sep @ join sep (y # xs)"

definition isDigit :: "char \<Rightarrow> bool" where
  "isDigit c = (c \<in> set ''0123456789'')"

definition digitVal :: "char \<Rightarrow> nat" where
  "digitVal c = (case map_of (zip ''0123456789'' [0, 1, 2, 3, 4, 5, 6, 7, 8, 9]) c of
                   None \<Rightarrow> 0 | Some d \<Rightarrow> d)"

definition digitsVal :: "string \<Rightarrow> nat" where
  "digitsVal s = foldl (\<lambda>acc c. 10 * acc + digitVal c) 0 s"

fun decNat :: "nat \<Rightarrow> string" where
  "decNat n = (if n < 10 then [''0123456789'' ! n]
               else decNat (n div 10) @ [''0123456789'' ! (n mod 10)])"

definition decInt :: "int \<Rightarrow> string" where
  "decInt i = (if i < 0 then CHR ''-'' # decNat (nat (- i)) else decNat (nat i))"

text \<open>\<open>String(value)\<close>.\<close>

fun js_String :: "cell \<Rightarrow> string" where
  "js_String JUndefined = ''undefined''"
| "js_String JNull = ''null''"
| "js_String (JBool b) = (if b then ''true'' else ''false'')"
| "js_String (JNum n) = decInt n"
| "js_String (JStr s) = s"

text \<open>Truthiness, as \<open>!value\<close> and \<open>a || b\<close> test it.\<close>

fun truthy :: "cell \<Rightarrow> bool" where
  "truthy JUndefined = False"
| "truthy JNull = False"
| "truthy (JBool b) = b"
| "truthy (JNum n) = (n \<noteq> 0)"
| "truthy (JStr s) = (s \<noteq> [])"

fun truthyNum :: "jsnum \<Rightarrow> bool" where
  "truthyNum NaN = False"
| "truthyNum (Fin q) = (q \<noteq> 0)"
| "truthyNum PosInf = True"
| "truthyNum NegInf = True"

definition cellOr :: "cell \<Rightarrow> cell \<Rightarrow> cell" where
  "cellOr a b = (if truthy a then a else b)"

section \<open>Value normalizer\<close>

text \<open>\<open>parseBoolean\<close> of app1.js (and of the unnamed variant, which has the same text).\<close>

definition parseBoolean :: "cell \<Rightarrow> bool" where
  "parseBoolean v =
     (if truthy v then
        (let str = trim (toLowerCase (js_String v))
         in str = ''1'' \<or> str = ''yes'' \<or> str = ''true'' \<or> str = ''y'')
      else False)"

text \<open>\<open>parseSubscriptionStatus\<close> of app5.js.\<close>

definition parseSubscriptionStatus :: "cell \<Rightarrow> bool" where
  "parseSubscriptionStatus v =
     (if v = JUndefined \<or> v = JNull \<or> v = JStr [] then False
      else (let str = trim (toLowerCase (js_String v))
            in str = ''1'' \<or> str = ''yes'' \<or> str = ''true'' \<or> str = ''y''
               \<or> str = ''subscribed''))"

text \<open>
  \<open>parseFloat\<close>: the argument is converted to a string, leading white space is dropped,
  and the longest prefix that is a decimal literal (sign, digits, fraction, exponent, or
  \<open>Infinity\<close>) is read; with no such prefix the result is \<open>NaN\<close>. The value is kept as
  an exact rational: rounding to a double is not modelled.
\<close>

definition pow10 :: "int \<Rightarrow> rat" where
  "pow10 e = (if 0 \<le> e then 10 ^ nat e else 1 / 10 ^ nat (- e))"

definition exponentPart :: "string \<Rightarrow> int" where
  "exponentPart s =
     (case s of
        [] \<Rightarrow> 0
      | c # r \<Rightarrow>
          if c = CHR ''e'' \<or> c = CHR ''E'' then
            (case r of
               [] \<Rightarrow> 0
             | d # r' \<Rightarrow>
                 if d = CHR ''-'' then
                   (if takeWhile isDigit r' = [] then 0
                    else - int (digitsVal (takeWhile isDigit r')))
                 else if d = CHR ''+'' then int (digitsVal (takeWhile isDigit r'))
                 else int (digitsVal (takeWhile isDigit r)))
          else 0)"

definition unsignedLiteral :: "string \<Rightarrow> rat option" where
  "unsignedLiteral u =
     (let ip = takeWhile isDigit u;
          r1 = dropWhile isDigit u;
          hasDot = (case r1 of [] \<Rightarrow> False | c # r \<Rightarrow> c = CHR ''.'');
          fp = (if hasDot then takeWhile isDigit (tl r1) else []);
          r2 = (if hasDot then dropWhile isDigit (tl r1) else r1)
      in if ip = [] \<and> fp = [] then None
         else Some (rat_of_nat (digitsVal (ip @ fp)) / 10 ^ length fp * pow10 (exponentPart r2)))"

definition parseFloatStr :: "string \<Rightarrow> jsnum" where
  "parseFloatStr s =
     (let t = trimStart s;
          neg = (case t of [] \<Rightarrow> False | c # r \<Rightarrow> c = CHR ''-'');
          signed = (case t of [] \<Rightarrow> False | c # r \<Rightarrow> c = CHR ''-'' \<or> c = CHR ''+'');
          u = (if signed then tl t else t)
      in if prefix ''Infinity'' u then (if neg then NegInf else PosInf)
         else (case unsignedLiteral u of
                 None \<Rightarrow> NaN
               | Some q \<Rightarrow> Fin (if neg then - q else q)))"

definition parseFloat :: "cell \<Rightarrow> jsnum" where
  "parseFloat v = parseFloatStr (js_String v)"

text \<open>
  \<open>Math.floor(Math.random() * width) + base\<close>, for the draw \<open>r\<close> that
  \<open>Math.random()\<close> returned. A draw is a rational in \<open>[0, 1)\<close>; the product is exact.
\<close>

definition randomInt :: "rat \<Rightarrow> rat \<Rightarrow> int \<Rightarrow> int" where
  "randomInt r width base = \<lfloor>r * width\<rfloor> + base"

text \<open>
  \<open>parseFloat(c) || Math.floor(Math.random() * width) + base\<close>: the cost expression of
  app1.js line 759 (width 30000, base 20000) and of app5.js line 384 (width 40000, base
  15000).
\<close>

definition costOrFallback :: "cell \<Rightarrow> rat \<Rightarrow> rat \<Rightarrow> int \<Rightarrow> jsnum" where
  "costOrFallback c r width base =
     (if truthyNum (parseFloat c) then parseFloat c else Fin (of_int (randomInt r width base)))"

definition cost_app1 :: "cell \<Rightarrow> rat \<Rightarrow> jsnum" where
  "cost_app1 c r = costOrFallback c r 30000 20000"

definition cost_app5 :: "cell \<Rightarrow> rat \<Rightarrow> jsnum" where
  "cost_app5 c r = costOrFallback c r 40000 15000"

section \<open>Column resolver\<close>

text \<open>
  A row object is given by its entries in insertion order, with distinct names.
  \<open>Object.keys\<close> lists the names that are array indices (canonical decimal numerals
  below \<open>2^32 - 1\<close>) first, in ascending numeric order, and then the other names in
  insertion order.
\<close>

type_synonym row = "(string \<times> cell) list"

definition isArrayIndex :: "string \<Rightarrow> bool" where
  "isArrayIndex k = (k \<noteq> [] \<and> list_all isDigit k \<and> decNat (digitsVal k) = k
                     \<and> int (digitsVal k) < 4294967295)"

definition objectEntries :: "row \<Rightarrow> row" where
  "objectEntries r =
     sort_key (\<lambda>e. digitsVal (fst e)) (filter (\<lambda>e. isArrayIndex (fst e)) r)
     @ filter (\<lambda>e. \<not> isArrayIndex (fst e)) r"

text \<open>\<open>findValue\<close> of app1.js: the two nested loops, the outer one over the entries.\<close>

definition matchesKey :: "string list \<Rightarrow> string \<Rightarrow> bool" where
  "matchesKey possibleKeys key =
     list_ex (\<lambda>possibleKey. js_includes (toLowerCase key) (toLowerCase possibleKey)) possibleKeys"

fun findValueIn :: "row \<Rightarrow> string list \<Rightarrow> cell" where
  "findValueIn [] possibleKeys = JNull"
| "findValueIn ((key, v) # es) possibleKeys =
     (if matchesKey possibleKeys key then v else findValueIn es possibleKeys)"

definition findValue :: "row \<Rightarrow> string list \<Rightarrow> cell" where
  "findValue r possibleKeys = findValueIn (objectEntries r) possibleKeys"

text \<open>\<open>findColumnValue\<close> of app5.js: the name is also trimmed, and a name that is
  contained in a candidate matches as well.\<close>

definition matchesName :: "string list \<Rightarrow> string \<Rightarrow> bool" where
  "matchesName possibleNames key =
     list_ex (\<lambda>name. if js_includes (trim (toLowerCase key)) (toLowerCase name) then True
                     else js_includes (toLowerCase name) (trim (toLowerCase key))) possibleNames"

fun findColumnValueIn :: "row \<Rightarrow> string list \<Rightarrow> cell" where
  "findColumnValueIn [] possibleNames = JNull"
| "findColumnValueIn ((key, v) # es) possibleNames =
     (if matchesName possibleNames key then v else findColumnValueIn es possibleNames)"

definition findColumnValue :: "row \<Rightarrow> string list \<Rightarrow> cell" where
  "findColumnValue r possibleNames = findColumnValueIn (objectEntries r) possibleNames"

text \<open>
  The resolver as the specification words it: the value of the first column, in
  insertion order, whose lower-cased name contains a lower-cased candidate, else null.
\<close>

definition resolveSpec :: "row \<Rightarrow> string list \<Rightarrow> cell" where
  "resolveSpec r candidates =
     (case find (\<lambda>e. list_ex (\<lambda>c. js_includes (toLowerCase (fst e)) (toLowerCase c)) candidates) r of
        None \<Rightarrow> JNull
      | Some e \<Rightarrow> snd e)"

text \<open>The first entry of a list of entries whose name satisfies a test, else null.\<close>

definition firstMatch :: "(string \<Rightarrow> bool) \<Rightarrow> row \<Rightarrow> cell" where
  "firstMatch P es = (case find (\<lambda>e. P (fst e)) es of None \<Rightarrow> JNull | Some e \<Rightarrow> snd e)"

section \<open>The store and the statements in flight\<close>

text \<open>
  The four tables, each a list of rows in insertion order, a row paired with its
  \<open>AUTOINCREMENT\<close> identifier. The \<open>created_at\<close> columns are left out. Storage
  operations always succeed, so the \<open>err\<close> branches of the callbacks are never taken.
\<close>

record university =
  u_name :: string
  u_country :: string
  u_type :: string

record journal =
  j_title :: cell
  j_issn :: cell
  j_publisher :: cell
  j_subject_area :: cell
  j_keywords :: string
  j_description :: string

record subscription =
  s_university_id :: nat
  s_journal_id :: nat
  s_subscription_type :: string
  s_start_date :: string
  s_end_date :: string
  s_annual_cost :: jsnum
  s_status :: string
  s_usage_count :: int

record browsing =
  b_university_id :: nat
  b_journal_id :: nat
  b_view_date :: int
  b_view_count :: int
  b_session_duration :: int
  b_pages_viewed :: int
  b_downloaded_samples :: int
  b_requested_trial :: int

text \<open>What the per-row callbacks of app1.js close over.\<close>

record rowctx =
  c_universityId :: nat
  c_universityName :: string
  c_total :: nat
  c_journalTitle :: cell
  c_isSubscribed :: bool
  c_publisher :: cell
  c_subject :: cell
  c_cost :: jsnum

text \<open>What the per-row callbacks of app5.js close over.\<close>

record rowctx5 =
  d_universityId :: nat
  d_universityName :: string
  d_total :: nat
  d_journalTitle :: cell
  d_isCurrentlySubscribed :: bool
  d_publisher :: cell
  d_subject :: cell
  d_cost :: cell
  d_issn :: cell

text \<open>
  A statement handed to the database with \<open>db.get\<close> or \<open>db.run\<close> and not yet run.
  Its callback runs when the statement has run, never at the call.
\<close>

datatype op =
    DeleteSubscriptions nat
  | DeleteBrowsing nat
  | SelectJournal rowctx
  | InsertJournal rowctx string
  | SelectJournal5 rowctx5
  | InsertJournal5 rowctx5 string
  | InsertSubscription subscription
  | InsertBrowsing browsing

record state =
  universities :: "(nat \<times> university) list"
  journals :: "(nat \<times> journal) list"
  subscriptions :: "(nat \<times> subscription) list"
  browsing_history :: "(nat \<times> browsing) list"
  seq_universities :: nat
  seq_journals :: nat
  seq_subscriptions :: nat
  seq_browsing :: nat
  queue :: "op list"
  draws :: nat
  processed :: nat
  resolved :: bool
  rejected :: bool
  crashed :: bool

text \<open>
  The constants in which app1.js and the unnamed variant differ: width and base of the
  draws, and the trial probability.
\<close>

record tuning =
  t_sessionsSubscribed :: "rat \<times> int"
  t_sessionsOther :: "rat \<times> int"
  t_viewCount :: "rat \<times> int"
  t_sessionDuration :: "rat \<times> int"
  t_pagesViewed :: "rat \<times> int"
  t_trialProbability :: rat

definition app1_tuning :: tuning where
  "app1_tuning = \<lparr> t_sessionsSubscribed = (8, 3), t_sessionsOther = (20, 8),
      t_viewCount = (6, 1), t_sessionDuration = (1500, 300), t_pagesViewed = (12, 2),
      t_trialProbability = 1 / 4 \<rparr>"

definition part000_tuning :: tuning where
  "part000_tuning = \<lparr> t_sessionsSubscribed = (5, 2), t_sessionsOther = (15, 5),
      t_viewCount = (5, 1), t_sessionDuration = (1200, 180), t_pagesViewed = (10, 1),
      t_trialProbability = 3 / 10 \<rparr>"

text \<open>
  The environment of a run: the sequence of values \<open>Math.random()\<close> returns (the
  state counts how many were taken), today's day number, and the constants.
\<close>

record env =
  e_rnd :: "nat \<Rightarrow> rat"
  e_today :: int
  e_tuning :: tuning

section \<open>Helpers of the ingestion pipeline\<close>

definition endsWith :: "string \<Rightarrow> string \<Rightarrow> bool" where
  "endsWith s t = suffix t s"

text \<open>\<open>extractUniversityName\<close> of app1.js: the four \<open>replace\<close> calls.\<close>

definition stripExtension :: "string \<Rightarrow> string" where
  "stripExtension s =
     (if endsWith (toLowerCase s) ''.xlsx'' then take (length s - 5) s
      else if endsWith (toLowerCase s) ''.xls'' then take (length s - 4) s
      else s)"

definition stripExportPrefix :: "string \<Rightarrow> string" where
  "stripExportPrefix s = (if prefix ''Export_'' s then drop 7 s else s)"

definition isTimestamp :: "string \<Rightarrow> bool" where
  "isTimestamp t =
     (length t = 16 \<and> take 1 t = ''_'' \<and> list_all isDigit (take 8 (drop 1 t))
      \<and> take 1 (drop 9 t) = ''_'' \<and> list_all isDigit (drop 10 t))"

definition stripTimestamp :: "string \<Rightarrow> string" where
  "stripTimestamp s =
     (if isTimestamp (drop (length s - 16) s) then take (length s - 16) s else s)"

definition extractUniversityName :: "string \<Rightarrow> string" where
  "extractUniversityName filename =
     map (\<lambda>c. if c = CHR ''_'' then CHR '' '' else c)
       (stripTimestamp (stripExportPrefix (stripExtension filename)))"

fun countryLookup :: "(string \<times> string list) list \<Rightarrow> string \<Rightarrow> string" where
  "countryLookup [] universityName = ''Unknown''"
| "countryLookup ((country, unis) # rest) universityName =
     (if list_ex (\<lambda>uni. js_includes universityName uni) unis then country
      else countryLookup rest universityName)"

definition getCountryFromName :: "string \<Rightarrow> string" where
  "getCountryFromName universityName =
     countryLookup
       [(''Singapore'', [''National University of Singapore'', ''Nanyang Technological University'']),
        (''Thailand'', [''Mahidol University'']),
        (''Denmark'', [''Aalborg University''])] universityName"

text \<open>
  \<open>generateJournalKeywords\<close> of app1.js. \<open>None\<close> is the \<open>TypeError\<close> that
  \<open>toLowerCase\<close> raises on a value that is not a string.
\<close>

definition generateJournalKeywords :: "cell \<Rightarrow> cell \<Rightarrow> string option" where
  "generateJournalKeywords title subject =
     (case title of
        JStr t \<Rightarrow>
          (case (if truthy subject then subject else JStr []) of
             JStr s \<Rightarrow>
               (let titleLower = toLowerCase t
                in Some (join '', ''
                     ((if t = [] then [] else [toLowerCase t])
                      @ (if s = [] then [] else [toLowerCase s])
                      @ (if js_includes titleLower ''business'' then
                           [''business strategy'', ''management'', ''strategic planning'']
                         else if js_includes titleLower ''strategy'' then
                           [''business strategy'', ''management'', ''strategic planning'']
                         else [])
                      @ (if js_includes titleLower ''ai'' then
                           [''artificial intelligence'', ''machine learning'', ''AI strategy'']
                         else if js_includes titleLower ''artificial intelligence'' then
                           [''artificial intelligence'', ''machine learning'', ''AI strategy'']
                         else [])
                      @ (if js_includes titleLower ''technology'' then
                           [''technology strategy'', ''digital transformation'', ''innovation'']
                         else if js_includes titleLower ''digital'' then
                           [''technology strategy'', ''digital transformation'', ''innovation'']
                         else []))))
           | _ \<Rightarrow> None)
      | _ \<Rightarrow> None)"

section \<open>The ingestion pipeline of app1.js\<close>

definition enqueue :: "op list \<Rightarrow> state \<Rightarrow> state" where
  "enqueue ops st = st\<lparr>queue := queue st @ ops\<rparr>"

text \<open>
  The browsing rows one call of \<open>createSubscriptionData\<close> hands to the database: the
  body of its \<open>for\<close> loop, run \<open>n\<close> times, the first draw being number \<open>d\<close>. A row
  of a subscribed pair takes four draws, any other row five.
\<close>

definition browsingEvent :: "env \<Rightarrow> rowctx \<Rightarrow> nat \<Rightarrow> nat \<Rightarrow> browsing" where
  "browsingEvent E c journalId d =
     \<lparr> b_university_id = c_universityId c,
       b_journal_id = journalId,
       b_view_date = e_today E - randomInt (e_rnd E d) 365 0,
       b_view_count = randomInt (e_rnd E (d + 1)) (fst (t_viewCount (e_tuning E)))
                        (snd (t_viewCount (e_tuning E))),
       b_session_duration = randomInt (e_rnd E (d + 2)) (fst (t_sessionDuration (e_tuning E)))
                        (snd (t_sessionDuration (e_tuning E))),
       b_pages_viewed = randomInt (e_rnd E (d + 3)) (fst (t_pagesViewed (e_tuning E)))
                        (snd (t_pagesViewed (e_tuning E))),
       b_downloaded_samples = 0,
       b_requested_trial =
         (if c_isSubscribed c then 0
          else if e_rnd E (d + 4) < t_trialProbability (e_tuning E) then 1 else 0) \<rparr>"

definition drawsPerEvent :: "rowctx \<Rightarrow> nat" where
  "drawsPerEvent c = (if c_isSubscribed c then 4 else 5)"

fun browsingEvents :: "env \<Rightarrow> rowctx \<Rightarrow> nat \<Rightarrow> nat \<Rightarrow> nat \<Rightarrow> browsing list" where
  "browsingEvents E c journalId 0 d = []"
| "browsingEvents E c journalId (Suc n) d =
     browsingEvent E c journalId d # browsingEvents E c journalId n (d + drawsPerEvent c)"

definition sessionCount :: "env \<Rightarrow> rowctx \<Rightarrow> nat \<Rightarrow> nat" where
  "sessionCount E c d =
     nat (if c_isSubscribed c
          then randomInt (e_rnd E d) (fst (t_sessionsSubscribed (e_tuning E)))
                 (snd (t_sessionsSubscribed (e_tuning E)))
          else randomInt (e_rnd E d) (fst (t_sessionsOther (e_tuning E)))
                 (snd (t_sessionsOther (e_tuning E))))"

definition newSubscription :: "rowctx \<Rightarrow> nat \<Rightarrow> subscription" where
  "newSubscription c journalId =
     \<lparr> s_university_id = c_universityId c, s_journal_id = journalId,
       s_subscription_type = ''institutional'', s_start_date = ''2024-01-01'',
       s_end_date = ''2024-12-31'', s_annual_cost = c_cost c, s_status = ''active'',
       s_usage_count = 0 \<rparr>"

text \<open>\<open>createSubscriptionData\<close>, the innermost function of \<open>processExcelFile\<close>.\<close>

definition createSubscriptionData :: "env \<Rightarrow> rowctx \<Rightarrow> nat \<Rightarrow> state \<Rightarrow> state" where
  "createSubscriptionData E c journalId st =
     (let sessions = sessionCount E c (draws st);
          st1 = st\<lparr> queue := queue st
                       @ (if c_isSubscribed c then [InsertSubscription (newSubscription c journalId)]
                          else [])
                       @ map InsertBrowsing
                           (browsingEvents E c journalId sessions (draws st + 1)),
                     draws := draws st + 1 + sessions * drawsPerEvent c,
                     processed := processed st + 1 \<rparr>
      in if c_total c \<le> processed st1 then st1\<lparr>resolved := True\<rparr> else st1)"

definition newJournal :: "rowctx \<Rightarrow> string \<Rightarrow> journal" where
  "newJournal c keywords =
     \<lparr> j_title = c_journalTitle c, j_issn = JNull, j_publisher = c_publisher c,
       j_subject_area = c_subject c, j_keywords = keywords,
       j_description = ''Journal from '' @ c_universityName c \<rparr>"

definition findJournal :: "cell \<Rightarrow> state \<Rightarrow> nat option" where
  "findJournal title st =
     map_option fst (find (\<lambda>row. j_title (snd row) = title) (journals st))"

definition findUniversity :: "string \<Rightarrow> state \<Rightarrow> nat option" where
  "findUniversity name st =
     map_option fst (find (\<lambda>row. u_name (snd row) = name) (universities st))"

definition insertUniversity :: "string \<Rightarrow> string \<Rightarrow> state \<Rightarrow> state" where
  "insertUniversity name country st =
     st\<lparr> universities := universities st
            @ [(seq_universities st + 1,
                \<lparr> u_name = name, u_country = country, u_type = ''Public'' \<rparr>)],
         seq_universities := seq_universities st + 1 \<rparr>"

section \<open>The callbacks of app5.js\<close>

text \<open>\<open>if (x) keywords.push(x.toLowerCase())\<close>; \<open>None\<close> is the \<open>TypeError\<close>.\<close>

definition pushLower :: "cell \<Rightarrow> string list option" where
  "pushLower x =
     (if truthy x then (case x of JStr s \<Rightarrow> Some [toLowerCase s] | _ \<Rightarrow> None) else Some [])"

definition titleHas :: "cell \<Rightarrow> string \<Rightarrow> bool" where
  "titleHas title w = (case title of JStr t \<Rightarrow> js_includes (toLowerCase t) w | _ \<Rightarrow> False)"

definition generateKeywords :: "cell \<Rightarrow> cell \<Rightarrow> string option" where
  "generateKeywords title subject =
     (case pushLower title of
        None \<Rightarrow> None
      | Some a \<Rightarrow>
          (case pushLower subject of
             None \<Rightarrow> None
           | Some b \<Rightarrow>
               Some (join '', ''
                 (a @ b
                  @ (if titleHas title ''business'' then
                       [''business strategy'', ''management'', ''leadership''] else [])
                  @ (if titleHas title ''ai'' then
                       [''artificial intelligence'', ''machine learning'', ''AI strategy'']
                     else [])
                  @ (if titleHas title ''medical'' then
                       [''medicine'', ''healthcare'', ''clinical research''] else [])))))"

definition baseEngagement :: "rowctx5 \<Rightarrow> rat" where
  "baseEngagement c = (if d_isCurrentlySubscribed c then 3 / 2 else 1)"

definition browsingEvent5 :: "env \<Rightarrow> rowctx5 \<Rightarrow> nat \<Rightarrow> nat \<Rightarrow> browsing" where
  "browsingEvent5 E c journalId d =
     \<lparr> b_university_id = d_universityId c,
       b_journal_id = journalId,
       b_view_date = e_today E - randomInt (e_rnd E d) 365 0,
       b_view_count = randomInt (e_rnd E (d + 1)) (8 * baseEngagement c) 1,
       b_session_duration = randomInt (e_rnd E (d + 2)) (1500 * baseEngagement c) 60,
       b_pages_viewed = randomInt (e_rnd E (d + 3)) (15 * baseEngagement c) 1,
       b_downloaded_samples = randomInt (e_rnd E (d + 4)) (4 * baseEngagement c) 0,
       b_requested_trial =
         (if e_rnd E (d + 5) < (if d_isCurrentlySubscribed c then 1 / 20 else 1 / 4)
          then 1 else 0) \<rparr>"

fun browsingEvents5 :: "env \<Rightarrow> rowctx5 \<Rightarrow> nat \<Rightarrow> nat \<Rightarrow> nat \<Rightarrow> browsing list" where
  "browsingEvents5 E c journalId 0 d = []"
| "browsingEvents5 E c journalId (Suc n) d =
     browsingEvent5 E c journalId d # browsingEvents5 E c journalId n (d + 6)"

text \<open>The draws the subscription row of app5.js takes: one for the cost when the cost
  cell does not parse to a number other than zero, and one for the usage count.\<close>

definition subscriptionDraws5 :: "rowctx5 \<Rightarrow> nat" where
  "subscriptionDraws5 c =
     (if d_isCurrentlySubscribed c
      then (if truthyNum (parseFloat (d_cost c)) then 1 else 2)
      else 0)"

definition newSubscription5 :: "env \<Rightarrow> rowctx5 \<Rightarrow> nat \<Rightarrow> nat \<Rightarrow> subscription" where
  "newSubscription5 E c journalId d =
     \<lparr> s_university_id = d_universityId c, s_journal_id = journalId,
       s_subscription_type = ''institutional'', s_start_date = ''2024-01-01'',
       s_end_date = ''2024-12-31'',
       s_annual_cost = cost_app5 (d_cost c) (e_rnd E d),
       s_status = ''active'',
       s_usage_count = randomInt (e_rnd E (d + subscriptionDraws5 c - 1)) 1000 200 \<rparr>"

definition sessionCount5 :: "env \<Rightarrow> rowctx5 \<Rightarrow> nat \<Rightarrow> nat" where
  "sessionCount5 E c d =
     nat (if d_isCurrentlySubscribed c then randomInt (e_rnd E d) 10 5
          else randomInt (e_rnd E d) 25 10)"

text \<open>\<open>insertSubscriptionAndBrowsing\<close>, followed by \<open>checkCompletion\<close>.\<close>

definition insertSubscriptionAndBrowsing :: "env \<Rightarrow> rowctx5 \<Rightarrow> nat \<Rightarrow> state \<Rightarrow> state" where
  "insertSubscriptionAndBrowsing E c journalId st =
     (let d = draws st + subscriptionDraws5 c;
          sessions = sessionCount5 E c d;
          st1 = st\<lparr> queue := queue st
                       @ (if d_isCurrentlySubscribed c
                          then [InsertSubscription (newSubscription5 E c journalId (draws st))]
                          else [])
                       @ map InsertBrowsing (browsingEvents5 E c journalId sessions (d + 1)),
                     draws := d + 1 + sessions * 6,
                     processed := processed st + 1 \<rparr>
      in if d_total c \<le> processed st1 then st1\<lparr>resolved := True\<rparr> else st1)"

definition newJournal5 :: "rowctx5 \<Rightarrow> string \<Rightarrow> journal" where
  "newJournal5 c keywords =
     \<lparr> j_title = d_journalTitle c, j_issn = cellOr (d_issn c) (JStr []),
       j_publisher = cellOr (d_publisher c) (JStr ''Unknown''),
       j_subject_area = cellOr (d_subject c) (JStr ''General''), j_keywords = keywords,
       j_description = ''Journal from '' @ d_universityName c @ '' subscription data'' \<rparr>"

section \<open>Running the statements\<close>

text \<open>
  One statement runs against the store and then its callback runs. The callback of a
  journal lookup either goes on with the identifier it found or hands an \<open>INSERT\<close> to
  the database, whose own callback goes on with the new identifier. An exception raised
  in a callback is not caught by anything: the process ends.
\<close>

fun exec :: "env \<Rightarrow> op \<Rightarrow> state \<Rightarrow> state" where
  "exec E (DeleteSubscriptions u) st =
     st\<lparr>subscriptions := filter (\<lambda>row. s_university_id (snd row) \<noteq> u) (subscriptions st)\<rparr>"
| "exec E (DeleteBrowsing u) st =
     st\<lparr>browsing_history :=
          filter (\<lambda>row. b_university_id (snd row) \<noteq> u) (browsing_history st)\<rparr>"
| "exec E (SelectJournal c) st =
     (case findJournal (c_journalTitle c) st of
        Some journalId \<Rightarrow> createSubscriptionData E c journalId st
      | None \<Rightarrow>
          (case generateJournalKeywords (c_journalTitle c) (c_subject c) of
             None \<Rightarrow> st\<lparr>crashed := True\<rparr>
           | Some keywords \<Rightarrow> enqueue [InsertJournal c keywords] st))"
| "exec E (InsertJournal c keywords) st =
     createSubscriptionData E c (seq_journals st + 1)
       (st\<lparr> journals := journals st @ [(seq_journals st + 1, newJournal c keywords)],
            seq_journals := seq_journals st + 1 \<rparr>)"
| "exec E (SelectJournal5 c) st =
     (case findJournal (d_journalTitle c) st of
        Some journalId \<Rightarrow> insertSubscriptionAndBrowsing E c journalId st
      | None \<Rightarrow>
          (case generateKeywords (d_journalTitle c) (d_subject c) of
             None \<Rightarrow> st\<lparr>crashed := True\<rparr>
           | Some keywords \<Rightarrow> enqueue [InsertJournal5 c keywords] st))"
| "exec E (InsertJournal5 c keywords) st =
     insertSubscriptionAndBrowsing E c (seq_journals st + 1)
       (st\<lparr> journals := journals st @ [(seq_journals st + 1, newJournal5 c keywords)],
            seq_journals := seq_journals st + 1 \<rparr>)"
| "exec E (InsertSubscription s) st =
     st\<lparr> subscriptions := subscriptions st @ [(seq_subscriptions st + 1, s)],
         seq_subscriptions := seq_subscriptions st + 1 \<rparr>"
| "exec E (InsertBrowsing b) st =
     st\<lparr> browsing_history := browsing_history st @ [(seq_browsing st + 1, b)],
         seq_browsing := seq_browsing st + 1 \<rparr>"

fun opWeight :: "op \<Rightarrow> nat" where
  "opWeight (SelectJournal c) = 2"
| "opWeight (SelectJournal5 c) = 2"
| "opWeight (InsertJournal c k) = 1"
| "opWeight (InsertJournal5 c k) = 1"
| "opWeight x = 0"

definition queueWeight :: "op list \<Rightarrow> nat" where
  "queueWeight q = sum_list (map opWeight q)"

text \<open>
  The statements run in the order in which they were handed over, each to its end and
  with its callback, until none is left or the process has ended.
\<close>

function drain :: "env \<Rightarrow> state \<Rightarrow> state" where
  "drain E st =
     (if crashed st then st
      else (case queue st of
              [] \<Rightarrow> st
            | x # q \<Rightarrow> drain E (exec E x (st\<lparr>queue := q\<rparr>))))"
  by pat_completeness auto
termination
proof (relation "measures [\<lambda>p. queueWeight (queue (snd p)), \<lambda>p. length (queue (snd p))]",
    goal_cases)
  case 1
  show ?case by simp
next
  case (2 E st x q)
  then show ?case
    by (cases x)
      (auto simp: queueWeight_def enqueue_def createSubscriptionData_def
        insertSubscriptionAndBrowsing_def Let_def comp_def split: option.splits)
qed

declare drain.simps [simp del]

text \<open>The statements that only add a row.\<close>

fun isInsert :: "op \<Rightarrow> bool" where
  "isInsert (InsertSubscription s) = True"
| "isInsert (InsertBrowsing b) = True"
| "isInsert x = False"


section \<open>Files, sheets and the per-file pipeline of app1.js\<close>

text \<open>
  A workbook is its sheets in order, each with its name and its rows. A file of the data
  folder is its name and the workbook \<open>XLSX.readFile\<close> returns, \<open>None\<close> when that
  call throws.
\<close>

type_synonym workbook = "(string \<times> row list) list"

type_synonym datafile = "string \<times> workbook option"

definition firstSheet :: "workbook \<Rightarrow> row list" where
  "firstSheet wb = (case wb of [] \<Rightarrow> [] | sheet # rest \<Rightarrow> snd sheet)"

definition titleKeys :: "string list" where
  "titleKeys = [''journal'', ''title'', ''publication'', ''name'', ''journal_title'']"

definition currentKeys :: "string list" where
  "currentKeys = [''current'', ''current_year'', ''2024'', ''subscribed'']"

text \<open>The body of \<open>data.forEach\<close> in \<open>processSubscriptionData\<close>: everything up to
  and including the call of \<open>db.get\<close>.\<close>

definition rowContext :: "env \<Rightarrow> nat \<Rightarrow> string \<Rightarrow> nat \<Rightarrow> nat \<Rightarrow> row \<Rightarrow> rowctx" where
  "rowContext E universityId universityName rowCount d r =
     \<lparr> c_universityId = universityId, c_universityName = universityName, c_total = rowCount,
       c_journalTitle = findValue r titleKeys,
       c_isSubscribed = parseBoolean (findValue r currentKeys),
       c_publisher = cellOr (findValue r [''publisher'', ''company'']) (JStr ''Unknown''),
       c_subject = cellOr (findValue r [''subject'', ''category'', ''area'']) (JStr ''General''),
       c_cost = cost_app1 (findValue r [''cost'', ''price'', ''amount'']) (e_rnd E d) \<rparr>"

definition processRow :: "env \<Rightarrow> nat \<Rightarrow> string \<Rightarrow> nat \<Rightarrow> state \<Rightarrow> row \<Rightarrow> state" where
  "processRow E universityId universityName rowCount st r =
     (if truthy (findValue r titleKeys) then
        st\<lparr> queue := queue st
               @ [SelectJournal (rowContext E universityId universityName rowCount (draws st) r)],
            draws := (if truthyNum (parseFloat (findValue r [''cost'', ''price'', ''amount'']))
                      then draws st else draws st + 1) \<rparr>
      else st)"

definition processSubscriptionData ::
    "env \<Rightarrow> nat \<Rightarrow> string \<Rightarrow> row list \<Rightarrow> state \<Rightarrow> state" where
  "processSubscriptionData E universityId universityName data st =
     foldl (processRow E universityId universityName (length data))
       (enqueue [DeleteSubscriptions universityId, DeleteBrowsing universityId]
          (st\<lparr>processed := 0\<rparr>))
       data"

text \<open>
  \<open>processExcelFile\<close>: the promise it returns is settled in the state it leaves behind
  once every statement it caused has run (\<open>resolved\<close>), or is never settled.
\<close>

definition processExcelFile :: "env \<Rightarrow> string \<Rightarrow> workbook \<Rightarrow> state \<Rightarrow> state" where
  "processExcelFile E filename wb st0 =
     (let universityName = extractUniversityName filename;
          data = firstSheet wb;
          st = st0\<lparr>resolved := False, rejected := False\<rparr>
      in if data = [] then st\<lparr>resolved := True\<rparr>
         else (case findUniversity universityName st of
                 Some universityId \<Rightarrow>
                   drain E (processSubscriptionData E universityId universityName data st)
               | None \<Rightarrow>
                   drain E (processSubscriptionData E (seq_universities st + 1) universityName data
                     (insertUniversity universityName (getCountryFromName universityName) st))))"

text \<open>
  How a batch ends: every file was gone through, or the \<open>await\<close> on a file never
  returned, or the process ended on an exception in a callback.
\<close>

datatype batch = AllProcessed | Stalled string | Crashed string

text \<open>\<open>processAllExcelFiles\<close>: the \<open>for\<close> loop with its \<open>try\<close> and
  \<open>catch\<close>.\<close>

fun processAllExcelFiles :: "env \<Rightarrow> datafile list \<Rightarrow> state \<Rightarrow> batch \<times> state" where
  "processAllExcelFiles E [] st = (AllProcessed, st)"
| "processAllExcelFiles E ((filename, None) # files) st = processAllExcelFiles E files st"
| "processAllExcelFiles E ((filename, Some wb) # files) st =
     (let st1 = processExcelFile E filename wb st
      in if crashed st1 then (Crashed filename, st1)
         else if rejected st1 then processAllExcelFiles E files st1
         else if resolved st1 then processAllExcelFiles E files st1
         else (Stalled filename, st1))"

section \<open>The per-file pipeline of app5.js\<close>

text \<open>\<open>extractUniversityFromFilename\<close>; \<open>None\<close> is its \<open>null\<close>.\<close>

definition testPattern :: "string \<Rightarrow> string \<Rightarrow> bool" where
  "testPattern pat filename = js_includes (toLowerCase filename) (toLowerCase pat)"

definition extractUniversityFromFilename :: "string \<Rightarrow> string option" where
  "extractUniversityFromFilename filename =
     (if testPattern ''National_University_of_Singapore'' filename
        then Some ''National University of Singapore''
      else if testPattern ''Nanyang_Technological_University'' filename
        then Some ''Nanyang Technological University''
      else if testPattern ''Mahidol_University'' filename then Some ''Mahidol University''
      else if testPattern ''Aalborg_University'' filename then Some ''Aalborg University''
      else if js_includes (toLowerCase filename) ''nus''
        then Some ''National University of Singapore''
      else if js_includes (toLowerCase filename) ''singapore''
        then Some ''National University of Singapore''
      else None)"

definition getCountryFromUniversity :: "string \<Rightarrow> string" where
  "getCountryFromUniversity universityName =
     countryLookup
       [(''Singapore'', [''National University of Singapore'', ''Nanyang Technological University'']),
        (''Thailand'', [''Mahidol University'']),
        (''Denmark'', [''Aalborg University'']),
        (''Australia'', [''University of Melbourne'']),
        (''Japan'', [''Tokyo Institute of Technology''])] universityName"

definition isSubscriptionSheet :: "string \<Rightarrow> bool" where
  "isSubscriptionSheet name =
     (if js_includes (toLowerCase name) ''subscription'' then True
      else if js_includes (toLowerCase name) ''journal'' then True
      else js_includes (toLowerCase name) ''export'')"

definition subscriptionSheet :: "workbook \<Rightarrow> row list" where
  "subscriptionSheet wb =
     (case find (\<lambda>sheet. isSubscriptionSheet (fst sheet)) wb of
        Some sheet \<Rightarrow> snd sheet
      | None \<Rightarrow> firstSheet wb)"

definition titleNames :: "string list" where
  "titleNames = [''journal'', ''journal title'', ''title'', ''publication'', ''name'',
                 ''journal name'', ''publication title'']"

definition currentNames :: "string list" where
  "currentNames = [''current year'', ''current'', ''2024'', ''subscribed'', ''active'',
                   ''this year'', ''current subscription'']"

definition hasTitle5 :: "row \<Rightarrow> bool" where
  "hasTitle5 r =
     (if truthy (findColumnValue r titleNames)
      then trim (js_String (findColumnValue r titleNames)) \<noteq> []
      else False)"

definition rowContext5 :: "nat \<Rightarrow> string \<Rightarrow> nat \<Rightarrow> row \<Rightarrow> rowctx5" where
  "rowContext5 universityId universityName rowCount r =
     \<lparr> d_universityId = universityId, d_universityName = universityName, d_total = rowCount,
       d_journalTitle = findColumnValue r titleNames,
       d_isCurrentlySubscribed = parseSubscriptionStatus (findColumnValue r currentNames),
       d_publisher = findColumnValue r [''publisher'', ''company'', ''provider'', ''publishing house''],
       d_subject = findColumnValue r [''subject'', ''subject area'', ''category'', ''field'',
                     ''discipline'', ''research area'', ''domain''],
       d_cost = findColumnValue r [''cost'', ''price'', ''amount'', ''fee'', ''annual cost'',
                     ''subscription cost''],
       d_issn = findColumnValue r [''issn'', ''isbn'', ''identifier''] \<rparr>"

text \<open>The body of \<open>data.forEach\<close> in \<open>processSheetData\<close>, up to the call of
  \<open>db.get\<close>.\<close>

definition processRow5 :: "nat \<Rightarrow> string \<Rightarrow> nat \<Rightarrow> state \<Rightarrow> row \<Rightarrow> state" where
  "processRow5 universityId universityName rowCount st r =
     (if hasTitle5 r
      then enqueue [SelectJournal5 (rowContext5 universityId universityName rowCount r)] st
      else st)"

definition processSheetData :: "nat \<Rightarrow> string \<Rightarrow> row list \<Rightarrow> state \<Rightarrow> state" where
  "processSheetData universityId universityName data st =
     (if data = [] then st\<lparr>resolved := True\<rparr>
      else foldl (processRow5 universityId universityName (length data))
             (enqueue [DeleteSubscriptions universityId, DeleteBrowsing universityId]
                (st\<lparr>processed := 0\<rparr>))
             data)"

definition processUniversityExcelFile :: "env \<Rightarrow> string \<Rightarrow> workbook \<Rightarrow> state \<Rightarrow> state" where
  "processUniversityExcelFile E filename wb st0 =
     (let st = st0\<lparr>resolved := False, rejected := False\<rparr>
      in case extractUniversityFromFilename filename of
           None \<Rightarrow> st\<lparr>rejected := True\<rparr>
         | Some universityName \<Rightarrow>
             (case findUniversity universityName st of
                Some universityId \<Rightarrow>
                  drain E (processSheetData universityId universityName (subscriptionSheet wb) st)
              | None \<Rightarrow>
                  drain E (processSheetData (seq_universities st + 1) universityName
                    (subscriptionSheet wb)
                    (insertUniversity universityName (getCountryFromUniversity universityName) st))))"

text \<open>\<open>processExcelFilesFromFolder\<close>.\<close>

fun processExcelFilesFromFolder :: "env \<Rightarrow> datafile list \<Rightarrow> state \<Rightarrow> batch \<times> state" where
  "processExcelFilesFromFolder E [] st = (AllProcessed, st)"
| "processExcelFilesFromFolder E ((filename, None) # files) st =
     processExcelFilesFromFolder E files st"
| "processExcelFilesFromFolder E ((filename, Some wb) # files) st =
     (let st1 = processUniversityExcelFile E filename wb st
      in if crashed st1 then (Crashed filename, st1)
         else if rejected st1 then processExcelFilesFromFolder E files st1
         else if resolved st1 then processExcelFilesFromFolder E files st1
         else (Stalled filename, st1))"

text \<open>The store as \<open>initializeDatabase\<close> leaves it: four empty tables.\<close>

definition emptyState :: state where
  "emptyState = \<lparr> universities = [], journals = [], subscriptions = [], browsing_history = [],
     seq_universities = 0, seq_journals = 0, seq_subscriptions = 0, seq_browsing = 0,
     queue = [], draws = 0, processed = 0, resolved = False, rejected = False,
     crashed = False \<rparr>"


text \<open>The identifier the pipeline works with for a university name: the one of the
  existing row, else the one the next \<open>INSERT\<close> gets.\<close>

definition universityIdFor :: "string \<Rightarrow> state \<Rightarrow> nat" where
  "universityIdFor name st =
     (case findUniversity name st of Some i \<Rightarrow> i | None \<Rightarrow> seq_universities st + 1)"



section \<open>The chat endpoints\<close>









section \<open>Inputs used in the examples\<close>

text \<open>An environment in which every draw is 0, with the constants of app1.js.\<close>

definition zeroEnv :: env where
  "zeroEnv = \<lparr> e_rnd = (\<lambda>i. 0), e_today = 0, e_tuning = app1_tuning \<rparr>"

definition natureRow :: row where
  "natureRow = [(''Journal'', JStr ''Nature''), (''current'', JStr ''1'')]"

definition natureAgainRow :: row where
  "natureAgainRow = [(''Journal'', JStr ''Nature''), (''current'', JStr ''0'')]"

definition specRow :: row where
  "specRow = [(''Journal_Title'', JStr ''X''), (''Cost'', JNum 100)]"

definition costOnlyRow :: row where
  "costOnlyRow = [(''Cost'', JNum 100)]"

definition aalborgFile :: string where
  "aalborgFile = ''Export_Aalborg_University_20240101_000000.xlsx''"

definition mahidolFile :: string where
  "mahidolFile = ''Export_Mahidol_University_20240101_000000.xlsx''"

definition natureSheet :: workbook where
  "natureSheet = [(''Sheet1'', [natureRow])]"


definition twiceSheet :: workbook where
  "twiceSheet = [(''Sheet1'', [natureRow, natureAgainRow])]"

definition costOnlySheet :: workbook where
  "costOnlySheet = [(''Sheet1'', [costOnlyRow])]"

definition twoFiles :: "datafile list" where
  "twoFiles = [(aalborgFile, Some costOnlySheet), (mahidolFile, Some natureSheet)]"


text \<open>The store after the file of Aalborg University, with the one row for Nature,
  has been ingested by app1.js into the empty store.\<close>

definition afterNature :: state where
  "afterNature = processExcelFile zeroEnv aalborgFile natureSheet emptyState"

section \<open>Properties of the value normalizer\<close>

text \<open>Trimming and lower-casing can be done in either order.\<close>

lemma isWhite_toLowerChar: "isWhite (toLowerChar c) = isWhite c"
  by (auto simp: toLowerChar_def isWhite_def split: option.splits if_splits)

lemma dropWhile_toLowerCase:
  "dropWhile isWhite (map toLowerChar s) = map toLowerChar (dropWhile isWhite s)"
  by (induction s) (simp_all add: isWhite_toLowerChar)

lemma trim_toLowerCase: "trim (toLowerCase s) = toLowerCase (trim s)"
proof -
  have "rev (dropWhile isWhite (rev (dropWhile isWhite (map toLowerChar s))))
      = rev (dropWhile isWhite (map toLowerChar (rev (dropWhile isWhite s))))"
    by (simp only: dropWhile_toLowerCase rev_map)
  also have "\<dots> = map toLowerChar (rev (dropWhile isWhite (rev (dropWhile isWhite s))))"
    by (simp only: dropWhile_toLowerCase rev_map)
  finally show ?thesis by (simp add: trim_def toLowerCase_def)
qed

lemma parseSubscriptionStatus_tokens:
  "parseSubscriptionStatus v
     = (trim (toLowerCase (js_String v)) \<in> {''1'', ''yes'', ''true'', ''y'', ''subscribed''})"
proof (cases v)
  case (JStr s)
  then show ?thesis
    by (cases "s = []") (simp_all add: parseSubscriptionStatus_def trim_def toLowerCase_def)
qed (simp_all add: parseSubscriptionStatus_def trim_def toLowerCase_def toLowerChar_def
      isWhite_def Let_def)

lemma parseBoolean_tokens:
  "parseBoolean v = (trim (toLowerCase (js_String v)) \<in> {''1'', ''yes'', ''true'', ''y''})"
proof (cases v)
  case (JStr s)
  then show ?thesis
    by (cases "s = []") (simp_all add: parseBoolean_def trim_def toLowerCase_def)
next
  case (JNum n)
  then show ?thesis
    by (cases "n = 0")
      (simp_all add: parseBoolean_def trim_def toLowerCase_def toLowerChar_def isWhite_def
        decInt_def Let_def)
next
  case (JBool b)
  then show ?thesis
    by (cases b)
      (simp_all add: parseBoolean_def trim_def toLowerCase_def toLowerChar_def isWhite_def)
qed (simp_all add: parseBoolean_def trim_def toLowerCase_def toLowerChar_def isWhite_def)

text \<open>
  Claim C1, as amended. For every raw cell value, \<open>parseSubscriptionStatus\<close> (app5.js)
  is true exactly when the lower-cased, trimmed string form of the value is one of
  \<open>1\<close>, \<open>yes\<close>, \<open>true\<close>, \<open>y\<close>, \<open>subscribed\<close>, and \<open>parseBoolean\<close> (app1.js
  and the unnamed variant) is true exactly when it is one of \<open>1\<close>, \<open>yes\<close>,
  \<open>true\<close>, \<open>y\<close>. Both are total: an empty, null or missing input gives false.
\<close>

theorem truthy_tokens_of_each_parser:
  "parseSubscriptionStatus v
     = (trim (toLowerCase (js_String v)) \<in> {''1'', ''yes'', ''true'', ''y'', ''subscribed''})
   \<and> parseBoolean v = (trim (toLowerCase (js_String v)) \<in> {''1'', ''yes'', ''true'', ''y''})"
  using parseSubscriptionStatus_tokens [of v] parseBoolean_tokens [of v] by simp

text \<open>
  Claim C1 as stated fails for \<open>parseBoolean\<close>: the cell \<open>subscribed\<close> has a string
  form among the five tokens, and \<open>parseBoolean\<close> is false on it.
\<close>

theorem parseBoolean_subscribed_counterexample:
  "\<not> (parseBoolean (JStr ''subscribed'')
        = (trim (toLowerCase (js_String (JStr ''subscribed'')))
             \<in> {''1'', ''yes'', ''true'', ''y'', ''subscribed''}))"
  by (simp add: parseBoolean_def trim_def toLowerCase_def toLowerChar_def isWhite_def)

section \<open>Properties of the cost fallback\<close>

lemma randomInt_bounds:
  assumes "0 \<le> r" "r < 1" "0 < n"
  shows "b \<le> randomInt r (of_int n) b \<and> randomInt r (of_int n) b \<le> b + n - 1"
proof -
  have "0 \<le> r * of_int n" using assms by simp
  then have lo: "0 \<le> \<lfloor>r * of_int n\<rfloor>" by simp
  have "r * of_int n < of_int n" using assms by simp
  then have "\<lfloor>r * of_int n\<rfloor> < n" by (simp add: floor_less_iff)
  with lo show ?thesis by (simp add: randomInt_def)
qed

text \<open>
  Claim C6. When the cost cell of a row does not parse to a number other than zero, the
  annual cost of the subscription record is a synthesized whole number: between 20000
  and 49999 in app1.js and the unnamed variant, between 15000 and 54999 in app5.js,
  whatever the draw in \<open>[0, 1)\<close>. Both ranges lie within 15000 to 65000 and above zero.
\<close>

theorem cost_fallback_bounds:
  assumes "0 \<le> e_rnd E d" and "e_rnd E d < 1"
  shows "(\<not> truthyNum (parseFloat (findValue r [''cost'', ''price'', ''amount''])) \<longrightarrow>
           (\<exists>k. s_annual_cost (newSubscription (rowContext E u n t d r) j) = Fin (of_int k)
                \<and> 20000 \<le> k \<and> k \<le> 49999))
       \<and> (\<not> truthyNum (parseFloat (d_cost c)) \<longrightarrow>
           (\<exists>k. s_annual_cost (newSubscription5 E c j d) = Fin (of_int k)
                \<and> 15000 \<le> k \<and> k \<le> 54999))"
  using randomInt_bounds [OF assms, of 30000 20000] randomInt_bounds [OF assms, of 40000 15000]
  by (simp add: newSubscription_def rowContext_def newSubscription5_def cost_app1_def
      cost_app5_def costOrFallback_def)

theorem cost_fallback_bounds_witness:
  "0 \<le> e_rnd zeroEnv 0 \<and> e_rnd zeroEnv 0 < 1
   \<and> \<not> truthyNum (parseFloat (findValue natureRow [''cost'', ''price'', ''amount'']))
   \<and> \<not> truthyNum (parseFloat (d_cost (rowContext5 1 ''Aalborg University'' 1 natureRow)))
   \<and> (\<exists>k. s_annual_cost
             (newSubscription (rowContext zeroEnv 1 ''Aalborg University'' 1 0 natureRow) 1)
               = Fin (of_int k) \<and> 20000 \<le> k \<and> k \<le> 49999)
   \<and> (\<exists>k. s_annual_cost
             (newSubscription5 zeroEnv (rowContext5 1 ''Aalborg University'' 1 natureRow) 1 0)
               = Fin (of_int k) \<and> 15000 \<le> k \<and> k \<le> 54999)"
proof -
  have a: "0 \<le> e_rnd zeroEnv 0" by (simp add: zeroEnv_def)
  have b: "e_rnd zeroEnv 0 < 1" by (simp add: zeroEnv_def)
  have c: "\<not> truthyNum (parseFloat (findValue natureRow [''cost'', ''price'', ''amount'']))"
    by code_simp
  have d: "\<not> truthyNum (parseFloat (d_cost (rowContext5 1 ''Aalborg University'' 1 natureRow)))"
    by code_simp
  from cost_fallback_bounds [OF a b, where r = natureRow
      and c = "rowContext5 1 ''Aalborg University'' 1 natureRow"] c d a b
  show ?thesis by blast
qed

section \<open>Properties of the column resolver\<close>

lemma findValueIn_firstMatch: "findValueIn es ks = firstMatch (matchesKey ks) es"
  by (induction es) (auto simp: firstMatch_def)

lemma findColumnValueIn_firstMatch: "findColumnValueIn es ks = firstMatch (matchesName ks) es"
  by (induction es) (auto simp: firstMatch_def)

lemma matchesKey_set: "set ks' = set ks \<Longrightarrow> matchesKey ks' = matchesKey ks"
  by (auto simp: matchesKey_def list_ex_iff fun_eq_iff)

lemma matchesName_set: "set ks' = set ks \<Longrightarrow> matchesName ks' = matchesName ks"
  by (auto simp: matchesName_def list_ex_iff fun_eq_iff)

lemma objectEntries_plain:
  "list_all (\<lambda>e. \<not> isArrayIndex (fst e)) r \<Longrightarrow> objectEntries r = r"
  by (simp add: objectEntries_def list_all_iff)

lemma set_objectEntries: "set (objectEntries r) = set r"
  by (auto simp: objectEntries_def)

lemma list_all_objectEntries: "list_all P (objectEntries r) = list_all P r"
  by (simp add: list_all_iff set_objectEntries)

lemma findValueIn_no_match:
  "list_all (\<lambda>e. \<not> matchesKey ks (fst e)) es \<Longrightarrow> findValueIn es ks = JNull"
  by (induction es) auto

lemma findColumnValueIn_no_match:
  "list_all (\<lambda>e. \<not> matchesName ks (fst e)) es \<Longrightarrow> findColumnValueIn es ks = JNull"
  by (induction es) auto

text \<open>
  Claim C4, as amended. The resolver goes through the row's column names in the order of
  \<open>Object.keys\<close> (names that are array indices first, in ascending numeric order, then
  the others in insertion order; so insertion order when no name is an array index) and
  returns the value of the first name that matches, or null when none does. In
  \<open>findValue\<close> (app1.js) a name matches when, lower-cased, it contains a lower-cased
  candidate; in \<open>findColumnValue\<close> (app5.js) when, lower-cased and trimmed, it contains
  a lower-cased candidate or is contained in one. Permuting the candidates changes
  nothing.
\<close>

theorem resolver_first_match:
  "findValue r ks = firstMatch (matchesKey ks) (objectEntries r)
   \<and> findColumnValue r ks = firstMatch (matchesName ks) (objectEntries r)
   \<and> (mset ks' = mset ks \<longrightarrow>
        findValue r ks' = findValue r ks \<and> findColumnValue r ks' = findColumnValue r ks)
   \<and> (list_all (\<lambda>e. \<not> isArrayIndex (fst e)) r \<longrightarrow> objectEntries r = r)"
proof -
  have "matchesKey ks' = matchesKey ks \<and> matchesName ks' = matchesName ks"
    if "mset ks' = mset ks"
    using mset_eq_setD [OF that] matchesKey_set matchesName_set by blast
  then show ?thesis
    by (simp add: findValue_def findColumnValue_def findValueIn_firstMatch
        findColumnValueIn_firstMatch objectEntries_plain)
qed

theorem resolver_first_match_witness:
  "mset [''journal'', ''title''] = mset [''title'', ''journal'']
   \<and> list_all (\<lambda>e. \<not> isArrayIndex (fst e)) specRow
   \<and> findValue specRow [''journal'', ''title''] = JStr ''X''
   \<and> findValue specRow [''title'', ''journal''] = JStr ''X''
   \<and> objectEntries specRow = specRow"
proof -
  have h1: "mset [''journal'', ''title''] = mset [''title'', ''journal'']" by simp
  have h2: "list_all (\<lambda>e. \<not> isArrayIndex (fst e)) specRow" by code_simp
  have h3: "findValue specRow [''title'', ''journal''] = JStr ''X''" by code_simp
  from resolver_first_match [of specRow "[''title'', ''journal'']" "[''journal'', ''title'']"]
    h1 h2 h3 show ?thesis by simp
qed

text \<open>
  Claim C4 as stated fails twice. In \<open>findColumnValue\<close> the column \<open>Year\<close>
  matches the candidate \<open>current year\<close>, whose text contains it, and its value is
  returned instead of the value of the column \<open>Current Subscription\<close>. In
  \<open>findValue\<close> the column \<open>2024\<close>, inserted after the column \<open>current\<close>, is
  gone through first.
\<close>

theorem resolver_counterexample:
  "findColumnValue [(''Year'', JNum 2023), (''Current Subscription'', JStr ''yes'')] currentNames
     = JNum 2023
   \<and> resolveSpec [(''Year'', JNum 2023), (''Current Subscription'', JStr ''yes'')] currentNames
     = JStr ''yes''
   \<and> findValue [(''current'', JStr ''yes''), (''2024'', JStr ''no'')] currentKeys = JStr ''no''
   \<and> resolveSpec [(''current'', JStr ''yes''), (''2024'', JStr ''no'')] currentKeys = JStr ''yes''"
  by code_simp

section \<open>Properties of the synthesizer\<close>

lemma drain_step:
  "\<not> crashed st \<Longrightarrow> queue st = x # q \<Longrightarrow> drain E st = drain E (exec E x (st\<lparr>queue := q\<rparr>))"
  by (subst drain.simps) simp

lemma drain_empty: "queue st = [] \<Longrightarrow> drain E st = st"
  by (subst drain.simps) simp


lemma exec_insert_queue: "isInsert x \<Longrightarrow> queue (exec E x st) = queue st"
  by (cases x) simp_all

lemma exec_insert_crashed: "isInsert x \<Longrightarrow> crashed (exec E x st) = crashed st"
  by (cases x) simp_all

lemma exec_insert_requeue:
  "isInsert x \<Longrightarrow> (exec E x st)\<lparr>queue := q\<rparr> = exec E x (st\<lparr>queue := q\<rparr>)"
  by (cases x) simp_all

lemma drain_inserts:
  "\<not> crashed st \<Longrightarrow> list_all isInsert (queue st) \<Longrightarrow>
     drain E st = foldl (\<lambda>s x. exec E x s) (st\<lparr>queue := []\<rparr>) (queue st)"
proof (induction "queue st" arbitrary: st)
  case Nil
  then show ?case by (simp add: drain_empty)
next
  case (Cons x q)
  let ?st' = "exec E x (st\<lparr>queue := q\<rparr>)"
  from Cons.hyps(2) [symmetric] Cons.prems have x: "isInsert x" and q: "list_all isInsert q"
    by simp_all
  have fr: "queue ?st' = q" "\<not> crashed ?st'"
    using Cons.prems(1) by (simp_all add: exec_insert_queue [OF x] exec_insert_crashed [OF x])
  have "drain E st = drain E ?st'"
    using drain_step [OF Cons.prems(1) Cons.hyps(2) [symmetric]] .
  also have "\<dots> = foldl (\<lambda>s x. exec E x s) (?st'\<lparr>queue := []\<rparr>) q"
    using Cons.hyps(1) [of ?st'] fr q by simp
  also have "?st'\<lparr>queue := []\<rparr> = exec E x (st\<lparr>queue := []\<rparr>)"
    by (simp add: exec_insert_requeue [OF x])
  finally show ?case using Cons.hyps(2) [symmetric] by simp
qed

lemma foldl_browsing:
  "subscriptions (foldl (\<lambda>s x. exec E x s) st (map InsertBrowsing bs)) = subscriptions st
   \<and> map snd (browsing_history (foldl (\<lambda>s x. exec E x s) st (map InsertBrowsing bs)))
       = map snd (browsing_history st) @ bs"
  by (induction bs arbitrary: st) simp_all

lemma foldl_subscription_browsing:
  "subscriptions (foldl (\<lambda>s x. exec E x s) st (InsertSubscription n # map InsertBrowsing bs))
     = subscriptions st @ [(seq_subscriptions st + 1, n)]
   \<and> map snd (browsing_history
         (foldl (\<lambda>s x. exec E x s) st (InsertSubscription n # map InsertBrowsing bs)))
       = map snd (browsing_history st) @ bs"
  by (simp add: foldl_browsing)

lemma drain_createSubscriptionData:
  assumes "queue st = []" and "\<not> crashed st"
  shows "subscriptions (drain E (createSubscriptionData E c j st))
           = subscriptions st
             @ (if c_isSubscribed c then [(seq_subscriptions st + 1, newSubscription c j)] else [])
         \<and> map snd (browsing_history (drain E (createSubscriptionData E c j st)))
           = map snd (browsing_history st)
             @ browsingEvents E c j (sessionCount E c (draws st)) (draws st + 1)"
proof -
  let ?st' = "createSubscriptionData E c j st"
  have nc: "\<not> crashed ?st'"
    using assms by (simp add: createSubscriptionData_def Let_def)
  have q: "queue ?st' = (if c_isSubscribed c then [InsertSubscription (newSubscription c j)] else [])
       @ map InsertBrowsing (browsingEvents E c j (sessionCount E c (draws st)) (draws st + 1))"
    using assms by (simp add: createSubscriptionData_def Let_def)
  have li: "list_all isInsert (queue ?st')"
    unfolding q by (auto simp: list_all_iff)
  have sub: "subscriptions (?st'\<lparr>queue := []\<rparr>) = subscriptions st"
    and seq: "seq_subscriptions (?st'\<lparr>queue := []\<rparr>) = seq_subscriptions st"
    and bh: "browsing_history (?st'\<lparr>queue := []\<rparr>) = browsing_history st"
    by (simp_all add: createSubscriptionData_def Let_def)
  show ?thesis
    unfolding drain_inserts [OF nc li] q
    using foldl_browsing [of E "?st'\<lparr>queue := []\<rparr>"]
      foldl_subscription_browsing [of E "?st'\<lparr>queue := []\<rparr>"]
    by (simp add: sub seq bh)
qed





text \<open>
  Claim C10. The browsing rows that \<open>createSubscriptionData\<close> (app1.js and the
  unnamed variant, whatever their constants) adds to the store are the rows of its
  \<open>for\<close> loop. For a pair whose flag parsed to true every such row has
  \<open>requested_trial\<close> 0, whatever the draws; for a pair whose flag parsed to false the
  field is 1 exactly when the draw is below the trial probability, so it can be 1.
\<close>

theorem no_trial_when_subscribed:
  assumes "queue st = []" and "\<not> crashed st"
  shows "map snd (browsing_history (drain E (createSubscriptionData E c j st)))
           = map snd (browsing_history st)
             @ browsingEvents E c j (sessionCount E c (draws st)) (draws st + 1)
     \<and> (c_isSubscribed c \<longrightarrow>
          list_all (\<lambda>b. b_requested_trial b = 0) (browsingEvents E c j n d))
     \<and> (\<not> c_isSubscribed c' \<longrightarrow>
          b_requested_trial (browsingEvent E c' j d)
            = (if e_rnd E (d + 4) < t_trialProbability (e_tuning E) then 1 else 0))"
proof -
  have "list_all (\<lambda>b. b_requested_trial b = 0) (browsingEvents E c j n d)"
    if "c_isSubscribed c"
    using that by (induction n arbitrary: d) (simp_all add: browsingEvent_def)
  then show ?thesis
    using drain_createSubscriptionData [OF assms, of E c j] by (simp add: browsingEvent_def)
qed

theorem no_trial_when_subscribed_witness:
  "queue emptyState = [] \<and> \<not> crashed emptyState
   \<and> c_isSubscribed (rowContext zeroEnv 1 ''Aalborg University'' 1 0 natureRow)
   \<and> \<not> c_isSubscribed (rowContext zeroEnv 1 ''Aalborg University'' 1 0 natureAgainRow)
   \<and> length (browsing_history (drain zeroEnv
         (createSubscriptionData zeroEnv
            (rowContext zeroEnv 1 ''Aalborg University'' 1 0 natureRow) 1 emptyState))) = 3
   \<and> list_all (\<lambda>b. b_requested_trial b = 0)
        (map snd (browsing_history (drain zeroEnv
           (createSubscriptionData zeroEnv
              (rowContext zeroEnv 1 ''Aalborg University'' 1 0 natureRow) 1 emptyState))))
   \<and> b_requested_trial
        (browsingEvent zeroEnv (rowContext zeroEnv 1 ''Aalborg University'' 1 0 natureAgainRow)
           1 1) = 1"
proof -
  let ?c = "rowContext zeroEnv 1 ''Aalborg University'' 1 0 natureRow"
  let ?c' = "rowContext zeroEnv 1 ''Aalborg University'' 1 0 natureAgainRow"
  have a: "queue emptyState = []" by (simp add: emptyState_def)
  have b: "\<not> crashed emptyState" by (simp add: emptyState_def)
  have c: "c_isSubscribed ?c" by code_simp
  have d: "\<not> c_isSubscribed ?c'" by code_simp
  have e: "browsing_history emptyState = []" "draws emptyState = 0"
    by (simp_all add: emptyState_def)
  have f: "sessionCount zeroEnv ?c 0 = 3" by code_simp
  have g: "e_rnd zeroEnv (1 + 4) < t_trialProbability (e_tuning zeroEnv)" by code_simp
  have h: "length (browsingEvents zeroEnv ?c 1 3 1) = 3" by code_simp
  note th = no_trial_when_subscribed [OF a b, where E = zeroEnv and c = ?c and c' = ?c'
      and j = 1 and n = 3 and d = 1]
  from th have "map snd (browsing_history (drain zeroEnv (createSubscriptionData zeroEnv ?c 1
      emptyState))) = browsingEvents zeroEnv ?c 1 3 1"
    by (simp add: e f del: One_nat_def)
  moreover from th c have "list_all (\<lambda>b. b_requested_trial b = 0)
      (browsingEvents zeroEnv ?c 1 3 1)"
    by blast
  moreover from th d g have "b_requested_trial (browsingEvent zeroEnv ?c' 1 1) = 1"
    by simp
  ultimately show ?thesis using a b c d h by (metis length_map)
qed

section \<open>Re-ingesting a university's file\<close>


















lemma universityIdFor_flags:
  "universityIdFor name (st\<lparr>resolved := a, rejected := b\<rparr>) = universityIdFor name st"
  by (simp add: universityIdFor_def findUniversity_def split: option.splits)




















section \<open>Properties of the per-row step\<close>

text \<open>
  Claim C7. A row in which no column matches the journal-title candidates resolves to
  no title and is skipped: the per-row step hands no statement to the database and
  leaves the store, the pending statements and the counters as they were, in app1.js and
  in app5.js.
\<close>

theorem row_without_title_is_skipped:
  "(list_all (\<lambda>e. \<not> matchesKey titleKeys (fst e)) r \<longrightarrow>
      findValue r titleKeys = JNull \<and> processRow E u name n st r = st)
   \<and> (list_all (\<lambda>e. \<not> matchesName titleNames (fst e)) r \<longrightarrow>
      findColumnValue r titleNames = JNull \<and> processRow5 u name n st r = st)"
  by (simp add: findValue_def findColumnValue_def processRow_def processRow5_def hasTitle5_def
      findValueIn_no_match findColumnValueIn_no_match list_all_objectEntries)

theorem row_without_title_is_skipped_witness:
  "list_all (\<lambda>e. \<not> matchesKey titleKeys (fst e)) costOnlyRow
   \<and> list_all (\<lambda>e. \<not> matchesName titleNames (fst e)) costOnlyRow
   \<and> processRow zeroEnv 1 ''Aalborg University'' 1 emptyState costOnlyRow = emptyState
   \<and> processRow5 1 ''Aalborg University'' 1 emptyState costOnlyRow = emptyState"
proof -
  have h1: "list_all (\<lambda>e. \<not> matchesKey titleKeys (fst e)) costOnlyRow" by code_simp
  have h2: "list_all (\<lambda>e. \<not> matchesName titleNames (fst e)) costOnlyRow" by code_simp
  from row_without_title_is_skipped
    [of costOnlyRow zeroEnv 1 "''Aalborg University''" 1 emptyState] h1 h2
  show ?thesis by simp
qed

section \<open>Journals with the same title\<close>

text \<open>
  A lookup that finds the title inserts nothing, and a title that a file ingested
  earlier has left in the store is found by the files that follow.
\<close>

lemma same_title_in_a_later_file:
  "map (\<lambda>row. j_title (snd row))
     (journals (processExcelFile zeroEnv mahidolFile natureSheet afterNature)) = [JStr ''Nature'']
   \<and> map (\<lambda>row. (s_university_id (snd row), s_journal_id (snd row)))
       (subscriptions (processExcelFile zeroEnv mahidolFile natureSheet afterNature))
     = [(1, 1), (2, 1)]"
  by code_simp

lemma lookup_finds_existing_journal:
  "findJournal (c_journalTitle c) st = Some i \<Longrightarrow>
     journals (exec E (SelectJournal c) st) = journals st"
  by (simp add: createSubscriptionData_def Let_def)

text \<open>
  Claim C3, at the failing input: one file whose sheet has two rows with the title
  Nature, ingested into the empty store. Both \<open>SELECT\<close> statements are handed over
  by the \<open>forEach\<close> loop before the callback of the first one can hand over its
  \<open>INSERT\<close>, so neither finds the title and each row inserts a journal of its own: the
  journals table ends with two rows titled Nature, in app1.js and in app5.js.
\<close>

theorem same_title_twice_in_one_file:
  "map (\<lambda>row. j_title (snd row))
     (journals (processExcelFile zeroEnv aalborgFile twiceSheet emptyState))
     = [JStr ''Nature'', JStr ''Nature'']
   \<and> map (\<lambda>row. j_title (snd row))
       (journals (processUniversityExcelFile zeroEnv aalborgFile twiceSheet emptyState))
     = [JStr ''Nature'', JStr ''Nature'']"
proof -
  have "map (\<lambda>row. j_title (snd row))
     (journals (processExcelFile zeroEnv aalborgFile twiceSheet emptyState))
     = [JStr ''Nature'', JStr ''Nature'']"
    by code_simp
  moreover have "map (\<lambda>row. j_title (snd row))
       (journals (processUniversityExcelFile zeroEnv aalborgFile twiceSheet emptyState))
     = [JStr ''Nature'', JStr ''Nature'']"
    by code_simp
  ultimately show ?thesis by simp
qed

section \<open>A batch of files\<close>

text \<open>A file whose workbook cannot be read is passed over: the batch goes on as if the
  file were not there.\<close>

lemma unreadable_file_is_skipped:
  "processAllExcelFiles E (pre @ (f, None) # post) st = processAllExcelFiles E (pre @ post) st
   \<and> processExcelFilesFromFolder E (pre @ (f, None) # post) st
       = processExcelFilesFromFolder E (pre @ post) st"
proof (induction pre arbitrary: st)
  case Nil
  show ?case by simp
next
  case (Cons a pre)
  obtain g w where a: "a = (g, w)" by (cases a)
  show ?case
    by (cases w) (simp_all add: a Cons.IH Let_def)
qed

lemma stalled_app1:
  "\<not> crashed (processExcelFile zeroEnv aalborgFile costOnlySheet emptyState)
   \<and> \<not> rejected (processExcelFile zeroEnv aalborgFile costOnlySheet emptyState)
   \<and> \<not> resolved (processExcelFile zeroEnv aalborgFile costOnlySheet emptyState)
   \<and> journals (processExcelFile zeroEnv aalborgFile costOnlySheet emptyState) = []
   \<and> map (\<lambda>row. u_name (snd row))
       (universities (processExcelFile zeroEnv aalborgFile costOnlySheet emptyState))
     = [''Aalborg University'']"
  by code_simp

lemma stalled_app5:
  "\<not> crashed (processUniversityExcelFile zeroEnv aalborgFile costOnlySheet emptyState)
   \<and> \<not> rejected (processUniversityExcelFile zeroEnv aalborgFile costOnlySheet emptyState)
   \<and> \<not> resolved (processUniversityExcelFile zeroEnv aalborgFile costOnlySheet emptyState)
   \<and> journals (processUniversityExcelFile zeroEnv aalborgFile costOnlySheet emptyState) = []
   \<and> map (\<lambda>row. u_name (snd row))
       (universities (processUniversityExcelFile zeroEnv aalborgFile costOnlySheet emptyState))
     = [''Aalborg University'']"
  by code_simp

text \<open>
  Claim C8, at the failing input: a batch of two files, the first with a sheet whose
  only row has no column that matches the journal-title candidates. The row is skipped
  without being counted, the promise of the first file is never settled, and the loop
  never reaches the second file: its university and its journal are not in the store.
  This is so in app1.js and in app5.js.
\<close>

theorem batch_stalls_on_skipped_row:
  "fst (processAllExcelFiles zeroEnv twoFiles emptyState) = Stalled aalborgFile
   \<and> journals (snd (processAllExcelFiles zeroEnv twoFiles emptyState)) = []
   \<and> map (\<lambda>row. u_name (snd row))
       (universities (snd (processAllExcelFiles zeroEnv twoFiles emptyState)))
     = [''Aalborg University'']
   \<and> fst (processExcelFilesFromFolder zeroEnv twoFiles emptyState) = Stalled aalborgFile
   \<and> journals (snd (processExcelFilesFromFolder zeroEnv twoFiles emptyState)) = []
   \<and> map (\<lambda>row. u_name (snd row))
       (universities (snd (processExcelFilesFromFolder zeroEnv twoFiles emptyState)))
     = [''Aalborg University'']"
  using stalled_app1 stalled_app5 by (simp add: twoFiles_def Let_def)

section \<open>Properties of the chat endpoints\<close>




end
